theory Spec2Isabelle
  imports Complex_Main "HOL-Library.List_Lexorder" "HOL-Library.Char_ord" "HOL-Library.Sublist"
begin

section \<open>Data model of \<open>deepforest/evaluate.py\<close>\<close>

text \<open>
  The module works on pandas data frames. A frame is modelled as the list of its rows,
  in row order, and its index is pandas' default \<open>RangeIndex\<close>: the label of a row is
  its position. Python's unbounded integers are \<open>int\<close>, and a Python float is an
  idealised \<open>real\<close> (true division \<open>/\<close> is exact division). Every exception the
  module can raise is a value of \<open>error\<close>, and a function that may raise returns
  \<open>error + 'a\<close> with \<open>Inl\<close> for the exception.
\<close>

datatype error =
    ValueError string
  | IndexError
  | KeyError
  | TypeError
  | ZeroDivisionError
  | IOError
  | SchemaError

text \<open>
  A row of the prediction table or of the ground-truth table. The type of labels is a
  parameter (labels are strings or numbers; the module only compares and groups them).
  Further columns, such as the confidence \<open>score\<close> of a prediction, are never read by
  the module and are left out.
\<close>

record 'l box =
  image_path :: string
  xmin :: real
  ymin :: real
  xmax :: real
  ymax :: real
  label :: 'l

text \<open>The same row once the \<open>geometry\<close> column has been added (lines 36-42):
  \<open>shapely.geometry.box(minx, miny, maxx, maxy)\<close> is kept as its four corners.\<close>

record 'l geobox = "'l box" +
  geometry :: "real \<times> real \<times> real \<times> real"

text \<open>A row of the table \<open>IoU.compute_IoU\<close> returns: \<open>prediction_id\<close> is null
  (\<open>None\<close>) when the truth box has no partner.\<close>

record iou_row =
  truth_id :: nat
  prediction_id :: "nat option"
  IoU :: real

text \<open>A row of the table \<open>evaluate_image\<close> returns.\<close>

record 'l labelled_row = iou_row +
  predicted_label :: "'l option"
  true_label :: 'l

text \<open>
  A row of the table \<open>results\<close> of \<open>evaluate\<close>. A cell is \<open>None\<close> where the
  source writes \<open>None\<close> or where \<open>pd.concat\<close> fills a column that a frame lacks;
  \<open>row_image_path\<close> is the column \<open>image_path\<close> of that table. The column
  \<open>match\<close> holds \<open>True\<close> or \<open>False\<close> in the rows stamped at line 141 and
  \<open>None\<close> in the rows built at lines 120-128, and \<open>pd.concat\<close> keeps these cells
  as they are, in a column of Python objects.
\<close>

record 'l match_row = "'l labelled_row" +
  score :: "real option"
  row_image_path :: "string option"
  match :: "bool option"

text \<open>
  The collaborators imported from the rest of the package and from libraries, whose code
  is not part of the module, are parameters of the model: the rectangle matcher
  \<open>IoU.compute_IoU\<close>, which receives the ground truth and the predictions of one
  image; the format checker \<open>utilities.check_file\<close> (\<open>True\<close> when the table
  passes, else the call raises); and the reading of an image file (\<open>True\<close> when line
  53 reads the file at the path, else it raises).
\<close>

record 'l env =
  compute_IoU :: "'l geobox list \<Rightarrow> 'l geobox list \<Rightarrow> iou_row list"
  check_file :: "'l box list \<Rightarrow> bool"
  image_open :: "string \<Rightarrow> bool"

section \<open>Helpers for pandas and Python primitives\<close>

text \<open>\<open>Series.unique()\<close>: the distinct values in order of first appearance.\<close>

primrec unique :: "'a list \<Rightarrow> 'a list" where
  "unique [] = []"
| "unique (x # xs) = x # filter (\<lambda>y. y \<noteq> x) (unique xs)"

text \<open>\<open>Series.loc[i]\<close> on a frame with the default index: \<open>KeyError\<close> for a label
  that is not in the index.\<close>

definition loc :: "'a list \<Rightarrow> nat \<Rightarrow> error + 'a" where
  "loc xs i = (if i < length xs then Inr (xs ! i) else Inl KeyError)"

text \<open>\<open>Series.apply(f)\<close> with an \<open>f\<close> that may raise: the first exception ends it.\<close>

fun apply_rows :: "('a \<Rightarrow> error + 'b) \<Rightarrow> 'a list \<Rightarrow> error + 'b list" where
  "apply_rows f [] = Inr []"
| "apply_rows f (x # xs) =
     (case f x of
        Inl e \<Rightarrow> Inl e
      | Inr y \<Rightarrow> (case apply_rows f xs of Inl e \<Rightarrow> Inl e | Inr ys \<Rightarrow> Inr (y # ys)))"

text \<open>Python's \<open>a / b\<close> on integers.\<close>

definition py_div :: "int \<Rightarrow> int \<Rightarrow> error + real" where
  "py_div a b = (if b = 0 then Inl ZeroDivisionError else Inr (real_of_int a / real_of_int b))"

text \<open>Python's \<open>sum\<close> over a column of booleans that may hold \<open>None\<close>: it starts
  from 0 and adds the cells from left to right (\<open>True\<close> is 1), and \<open>int + None\<close>
  raises \<open>TypeError\<close>.\<close>

fun py_sum :: "int \<Rightarrow> bool option list \<Rightarrow> error + int" where
  "py_sum acc [] = Inr acc"
| "py_sum acc (None # xs) = Inl TypeError"
| "py_sum acc (Some b # xs) = py_sum (acc + (if b then 1 else 0)) xs"

text \<open>Python's \<open>sum\<close> over a column of booleans without nulls.\<close>

definition sum_bools :: "bool list \<Rightarrow> int" where
  "sum_bools bs = sum_list (map (\<lambda>b. if b then 1 else 0) bs)"

text \<open>\<open>try: v = e  except: v = d\<close> with a bare \<open>except\<close>: any exception gives the
  default.\<close>

definition except_default :: "real \<Rightarrow> error + real \<Rightarrow> real" where
  "except_default d r = (case r of Inl e \<Rightarrow> d | Inr v \<Rightarrow> v)"

text \<open>A numpy float: \<open>np.mean\<close> of an empty list is \<open>nan\<close> (with a warning, not an
  exception).\<close>

datatype npfloat = Finite real | NaN

definition np_mean :: "real list \<Rightarrow> npfloat" where
  "np_mean xs = (if xs = [] then NaN else Finite (sum_list xs / real (length xs)))"

text \<open>\<open>DataFrame.groupby(key)\<close>: one group per distinct key, in increasing order of
  the keys; the rows of a group keep their order (and their index labels). Strings are
  ordered as Python orders them, character by character.\<close>

definition groupby :: "('a \<Rightarrow> 'k::linorder) \<Rightarrow> 'a list \<Rightarrow> ('k \<times> 'a list) list" where
  "groupby key df = map (\<lambda>k. (k, filter (\<lambda>r. key r = k) df)) (sort (unique (map key df)))"

section \<open>\<open>evaluate_image\<close>\<close>

text \<open>
  Lines 30-58. The distinct image paths are taken first: more than one raises
  \<open>ValueError\<close> with \<open>plot_names[0]\<close> in the message, and none makes
  \<open>plot_names[0]\<close> raise \<open>IndexError\<close>. Then both tables get their \<open>geometry\<close>
  column: the predictions have a row at this point, but on a \<open>ground_df\<close> without
  rows \<open>apply\<close> returns an empty frame, and the assignment of line 40 raises pandas'
  \<open>ValueError\<close> for a frame that is set as one column. Then the matcher runs, and
  the two \<open>apply\<close> calls look the labels up by index
  label (\<open>KeyError\<close> for an id that is not in the table; a null \<open>prediction_id\<close>
  stays null). With a \<open>savedir\<close> that is neither \<open>None\<close> nor the empty string the
  image is read at \<open>root_dir/plot_name\<close>, which raises when the file cannot be read;
  the overlay that is then drawn and written changes no value the function returns and is
  not part of the model.
\<close>

definition add_geometry :: "'l box \<Rightarrow> 'l geobox" where
  "add_geometry x =
     \<lparr>image_path = image_path x, xmin = xmin x, ymin = ymin x, xmax = xmax x, ymax = ymax x,
      label = label x, geometry = (xmin x, ymin x, xmax x, ymax x)\<rparr>"

definition predicted_label_of :: "'l geobox list \<Rightarrow> nat option \<Rightarrow> error + 'l option" where
  "predicted_label_of predictions x =
     (case x of
        None \<Rightarrow> Inr None
      | Some i \<Rightarrow> (case loc (map label predictions) i of Inl e \<Rightarrow> Inl e | Inr l \<Rightarrow> Inr (Some l)))"

definition add_labels :: "iou_row \<Rightarrow> 'l option \<Rightarrow> 'l \<Rightarrow> 'l labelled_row" where
  "add_labels r p_label t_label =
     \<lparr>truth_id = truth_id r, prediction_id = prediction_id r, IoU = IoU r,
      predicted_label = p_label, true_label = t_label\<rparr>"

definition evaluate_image ::
  "'l env \<Rightarrow> 'l box list \<Rightarrow> 'l box list \<Rightarrow> string \<Rightarrow> string option \<Rightarrow> error + 'l labelled_row list"
where
  "evaluate_image env predictions ground_df root_dir savedir =
     (let plot_names = unique (map image_path predictions) in
      if length plot_names > 1 then
        Inl (ValueError (''More than one plot passed to image crown: '' @ hd plot_names))
      else
        (case plot_names of
           [] \<Rightarrow> Inl IndexError
         | plot_name # _ \<Rightarrow>
             if ground_df = [] then
               Inl (ValueError
                 ''Cannot set a DataFrame with multiple columns to the single column geometry'')
             else
             (let predictions' = map add_geometry predictions;
                  ground_df' = map add_geometry ground_df;
                  result = compute_IoU env ground_df' predictions'
              in
                case apply_rows (\<lambda>r. predicted_label_of predictions' (prediction_id r)) result of
                  Inl e \<Rightarrow> Inl e
                | Inr p_labels \<Rightarrow>
                    (case apply_rows (\<lambda>r. loc (map label ground_df') (truth_id r)) result of
                       Inl e \<Rightarrow> Inl e
                     | Inr t_labels \<Rightarrow>
                         (let result' = map (\<lambda>(r, p, t). add_labels r p t) (zip result (zip p_labels t_labels))
                          in
                            if savedir \<noteq> None \<and> savedir \<noteq> Some []
                               \<and> \<not> image_open env (root_dir @ ''/'' @ plot_name)
                            then Inl IOError
                            else Inr result')))))"

section \<open>\<open>compute_class_recall\<close>\<close>

text \<open>A row of the table of class metrics: the columns \<open>label\<close>, \<open>recall\<close>,
  \<open>precision\<close> and \<open>size\<close>.\<close>

record 'l class_row =
  class_label :: 'l
  recall :: real
  precision :: real
  class_size :: int

text \<open>The body of the loop over the groups of the matched rows (lines 73-79): the
  number of rows of the group whose predicted label is the true label, over the number
  of rows of the whole table with that true label and over the number of predictions
  with that label, and the size of the group.\<close>

definition class_metrics ::
  "'l match_row list \<Rightarrow> 'l box list \<Rightarrow> 'l \<times> 'l match_row list \<Rightarrow> error + 'l class_row"
where
  "class_metrics results predictions g =
     (case g of (name, grp) \<Rightarrow>
        (let correct = sum_bools (map (\<lambda>r. Some (true_label r) = predicted_label r) grp) in
         case py_div correct (int (length (filter (\<lambda>r. true_label r = name) results))) of
           Inl e \<Rightarrow> Inl e
         | Inr class_recall_value \<Rightarrow>
             (let number_of_predictions = int (length (filter (\<lambda>p. label p = name) predictions)) in
              if number_of_predictions = 0 then
                Inr \<lparr>class_label = name, recall = class_recall_value, precision = 0,
                     class_size = int (length grp)\<rparr>
              else
                (case py_div correct number_of_predictions of
                   Inl e \<Rightarrow> Inl e
                 | Inr class_precision_value \<Rightarrow>
                     Inr \<lparr>class_label = name, recall = class_recall_value,
                          precision = class_precision_value,
                          class_size = int (length grp)\<rparr>))))"

text \<open>Lines 66-88: null when no row has \<open>match == 1\<close> (the message that is printed
  then is not part of the model), else one row of metrics per true label of the matched
  rows, in the order of \<open>groupby\<close>.\<close>

definition compute_class_recall ::
  "('l::linorder) match_row list \<Rightarrow> 'l box list \<Rightarrow> error + 'l class_row list option"
where
  "compute_class_recall results predictions =
     (let df_IoUthres = filter (\<lambda>r. match r = Some True) results in
      if df_IoUthres = [] then Inr None
      else
        (case apply_rows (class_metrics results predictions) (groupby true_label df_IoUthres) of
           Inl e \<Rightarrow> Inl e
         | Inr class_rows \<Rightarrow> Inr (Some class_rows)))"

section \<open>\<open>evaluate\<close>\<close>

text \<open>The frame built for an image without predictions (lines 120-128): one row per
  ground-truth row, under that row's index label.\<close>

definition empty_result_row :: "nat \<times> 'l box \<Rightarrow> 'l match_row" where
  "empty_result_row g =
     \<lparr>truth_id = fst g, prediction_id = None, IoU = 0, predicted_label = None,
      true_label = label (snd g), score = None, row_image_path = None, match = None\<rparr>"

text \<open>Lines 140-141: the columns \<open>image_path\<close> and \<open>match\<close> added to a row that
  \<open>evaluate_image\<close> returned.\<close>

definition add_match :: "string \<Rightarrow> real \<Rightarrow> 'l labelled_row \<Rightarrow> 'l match_row" where
  "add_match path iou_threshold r =
     \<lparr>truth_id = truth_id r, prediction_id = prediction_id r, IoU = IoU r,
      predicted_label = predicted_label r, true_label = true_label r,
      score = None, row_image_path = Some path, match = Some (IoU r > iou_threshold)\<rparr>"

text \<open>The three lists the loop appends to: \<open>results\<close>, \<open>box_recalls\<close> and
  \<open>box_precisions\<close>.\<close>

type_synonym 'l loop_state = "'l match_row list list \<times> real list \<times> real list"

text \<open>One iteration of the loop over the ground-truth groups (lines 113-148).\<close>

definition evaluate_group ::
  "'l env \<Rightarrow> 'l box list \<Rightarrow> string \<Rightarrow> real \<Rightarrow> string option \<Rightarrow>
   string \<times> (nat \<times> 'l box) list \<Rightarrow> 'l loop_state \<Rightarrow> error + 'l loop_state"
where
  "evaluate_group env predictions root_dir iou_threshold savedir g st =
     (case g of (path, grp) \<Rightarrow>
      case st of (results, box_recalls, box_precisions) \<Rightarrow>
        (let image_predictions = filter (\<lambda>p. image_path p = path) predictions in
         if image_predictions = [] then
           Inr (results @ [map empty_result_row grp], box_recalls @ [0], box_precisions)
         else
           (case evaluate_image env image_predictions (map snd grp) root_dir savedir of
              Inl e \<Rightarrow> Inl e
            | Inr result \<Rightarrow>
                (let result' = map (add_match path iou_threshold) result in
                 case py_sum 0 (map match result') of
                   Inl e \<Rightarrow> Inl e
                 | Inr true_positive \<Rightarrow>
                     (case py_div true_positive (int (length result')) of
                        Inl e \<Rightarrow> Inl e
                      | Inr recall_value \<Rightarrow>
                          (case py_div true_positive (int (length image_predictions)) of
                             Inl e \<Rightarrow> Inl e
                           | Inr precision_value \<Rightarrow>
                               Inr (results @ [result'], box_recalls @ [recall_value],
                                    box_precisions @ [precision_value])))))))"

fun evaluate_loop ::
  "'l env \<Rightarrow> 'l box list \<Rightarrow> string \<Rightarrow> real \<Rightarrow> string option \<Rightarrow>
   (string \<times> (nat \<times> 'l box) list) list \<Rightarrow> 'l loop_state \<Rightarrow> error + 'l loop_state"
where
  "evaluate_loop env predictions root_dir iou_threshold savedir [] st = Inr st"
| "evaluate_loop env predictions root_dir iou_threshold savedir (g # gs) st =
     (case evaluate_group env predictions root_dir iou_threshold savedir g st of
        Inl e \<Rightarrow> Inl e
      | Inr st' \<Rightarrow> evaluate_loop env predictions root_dir iou_threshold savedir gs st')"

text \<open>Line 113, \<open>ground_df.groupby("image_path")\<close>: the ground-truth rows of each
  image, every row with its index label in \<open>ground_df\<close>.\<close>

definition ground_groups :: "'l box list \<Rightarrow> (string \<times> (nat \<times> 'l box) list) list" where
  "ground_groups ground_df = groupby (\<lambda>r. image_path (snd r)) (enumerate 0 ground_df)"

text \<open>The dictionary \<open>evaluate\<close> returns.\<close>

record 'l evaluation =
  results :: "'l match_row list"
  box_precision :: npfloat
  box_recall :: npfloat
  class_recall :: "'l class_row list option"
  overall_precision :: real
  overall_recall :: real

text \<open>Lines 150-158: \<open>sum(results["match"]) / n\<close> inside \<open>try\<close> with a bare
  \<open>except\<close> that gives 0.\<close>

definition match_ratio :: "'l match_row list \<Rightarrow> int \<Rightarrow> real" where
  "match_ratio results0 n =
     except_default 0
       (case py_sum 0 (map match results0) of Inl e \<Rightarrow> Inl e | Inr s \<Rightarrow> py_div s n)"

text \<open>
  Lines 106-187. Both tables are checked, the loop runs over the ground-truth groups,
  and \<open>pd.concat\<close> joins the per-image tables (it raises \<open>ValueError\<close> when there is
  none, that is, when \<open>ground_df\<close> has no row). The micro ratios of lines 151-158
  are computed first and replaced by the means of the per-image lists when
  \<open>average\<close> is set. The label-aware metrics read the rows with \<open>IoU > 0.4\<close>.
\<close>

definition evaluate ::
  "('l::linorder) env \<Rightarrow> 'l box list \<Rightarrow> 'l box list \<Rightarrow> string \<Rightarrow> real \<Rightarrow> string option \<Rightarrow> bool \<Rightarrow>
   error + 'l evaluation"
where
  "evaluate env predictions ground_df root_dir iou_threshold savedir average =
     (if \<not> check_file env ground_df then Inl SchemaError
      else if \<not> check_file env predictions then Inl SchemaError
      else
        (case evaluate_loop env predictions root_dir iou_threshold savedir
                (ground_groups ground_df) ([], [], []) of
           Inl e \<Rightarrow> Inl e
         | Inr (frames, box_recalls, box_precisions) \<Rightarrow>
             if frames = [] then Inl (ValueError ''No objects to concatenate'')
             else
               (let results0 = concat frames;
                    box_precision0 = Finite (match_ratio results0 (int (length predictions)));
                    box_recall0 = Finite (match_ratio results0 (int (length results0)));
                    box_precision1 = (if average then np_mean box_precisions else box_precision0);
                    box_recall1 = (if average then np_mean box_recalls else box_recall0)
                in
                  case compute_class_recall results0 predictions of
                    Inl e \<Rightarrow> Inl e
                  | Inr class_rows \<Rightarrow>
                      (let df_iou = filter (\<lambda>r. IoU r > 4 / 10) results0;
                           correct = map (\<lambda>r. if predicted_label r = Some (true_label r)
                                               then 1 else (0::int)) df_iou;
                           TP = sum_list correct;
                           FP = int (length predictions) - sum_list correct;
                           FN = int (length results0) - sum_list correct;
                           overall_precision0 = except_default 0 (py_div TP (TP + FP));
                           overall_recall0 = except_default 0 (py_div TP (TP + FN))
                       in
                         Inr \<lparr>results = results0, box_precision = box_precision1,
                              box_recall = box_recall1, class_recall = class_rows,
                              overall_precision = overall_precision0,
                              overall_recall = overall_recall0\<rparr>))))"

section \<open>The quantities the properties speak of\<close>

text \<open>The matched subset of a table: the rows whose \<open>match\<close> is true.\<close>

definition matched :: "'l match_row list \<Rightarrow> 'l match_row list" where
  "matched rows = filter (\<lambda>r. match r = Some True) rows"

text \<open>The table one iteration of the loop of \<open>evaluate\<close> appends to \<open>results\<close>
  for the group \<open>g\<close>: the per-image table of that image.\<close>

definition image_table ::
  "'l env \<Rightarrow> 'l box list \<Rightarrow> string \<Rightarrow> real \<Rightarrow> string option \<Rightarrow>
   string \<times> (nat \<times> 'l box) list \<Rightarrow> error + 'l match_row list"
where
  "image_table env predictions root_dir iou_threshold savedir g =
     (if filter (\<lambda>p. image_path p = fst g) predictions = [] then Inr (map empty_result_row (snd g))
      else
        (case evaluate_image env (filter (\<lambda>p. image_path p = fst g) predictions)
                (map snd (snd g)) root_dir savedir of
           Inl e \<Rightarrow> Inl e
         | Inr result \<Rightarrow> Inr (map (add_match (fst g) iou_threshold) result)))"

text \<open>The per-image recall of an image with per-image table \<open>f\<close>: 0 for an image
  without predictions, else the share of matched rows in \<open>f\<close>.\<close>

definition image_recall ::
  "'l box list \<Rightarrow> string \<times> (nat \<times> 'l box) list \<Rightarrow> 'l match_row list \<Rightarrow> real"
where
  "image_recall predictions g f =
     (if filter (\<lambda>p. image_path p = fst g) predictions = [] then 0
      else real (length (matched f)) / real (length f))"

text \<open>The per-image precision values an image contributes: none for an image without
  predictions, else the matched rows of \<open>f\<close> over the predictions of the image.\<close>

definition image_precision ::
  "'l box list \<Rightarrow> string \<times> (nat \<times> 'l box) list \<Rightarrow> 'l match_row list \<Rightarrow> real list"
where
  "image_precision predictions g f =
     (if filter (\<lambda>p. image_path p = fst g) predictions = [] then []
      else [real (length (matched f)) /
            real (length (filter (\<lambda>p. image_path p = fst g) predictions))])"

text \<open>The row of class metrics of the class \<open>c\<close>: the correct matched rows of the
  class over all rows of the class (recall) and over the predictions of the class
  (precision, 0 without such predictions), and the number of matched rows of the class.\<close>

definition class_row_of :: "'l match_row list \<Rightarrow> 'l box list \<Rightarrow> 'l \<Rightarrow> 'l class_row" where
  "class_row_of rows predictions c =
     \<lparr>class_label = c,
      recall = real (length (filter (\<lambda>r. true_label r = c \<and> predicted_label r = Some c) (matched rows))) /
               real (length (filter (\<lambda>r. true_label r = c) rows)),
      precision =
        (if filter (\<lambda>p. label p = c) predictions = [] then 0
         else real (length (filter (\<lambda>r. true_label r = c \<and> predicted_label r = Some c) (matched rows))) /
              real (length (filter (\<lambda>p. label p = c) predictions))),
      class_size = int (length (filter (\<lambda>r. true_label r = c) (matched rows)))\<rparr>"

text \<open>A message names a path when the path occurs in it.\<close>

definition mentions :: "string \<Rightarrow> string \<Rightarrow> bool" where
  "mentions msg s = sublist s msg"

section \<open>A concrete matcher for the worked examples\<close>

text \<open>
  The properties below hold for every matcher. The worked examples need one: this
  instance goes through the truth rectangles in order and pairs each with the
  prediction of largest intersection-over-union among those not paired yet (the first
  one on a tie), or with none when no such prediction overlaps it. It returns one row
  per truth rectangle and uses a prediction at most once, as the interface of the
  package's matcher asks.
\<close>

definition rect_area :: "real \<times> real \<times> real \<times> real \<Rightarrow> real" where
  "rect_area r = (case r of (x0, y0, x1, y1) \<Rightarrow> max 0 (x1 - x0) * max 0 (y1 - y0))"

definition rect_iou :: "real \<times> real \<times> real \<times> real \<Rightarrow> real \<times> real \<times> real \<times> real \<Rightarrow> real" where
  "rect_iou a b =
     (case a of (ax0, ay0, ax1, ay1) \<Rightarrow>
      case b of (bx0, by0, bx1, by1) \<Rightarrow>
        (let inter_area = rect_area (max ax0 bx0, max ay0 by0, min ax1 bx1, min ay1 by1);
             union_area = rect_area a + rect_area b - inter_area
         in if union_area = 0 then 0 else inter_area / union_area))"

fun best_overlap ::
  "real \<times> real \<times> real \<times> real \<Rightarrow> (nat \<times> 'l geobox) list \<Rightarrow> nat option \<times> real \<Rightarrow> nat option \<times> real"
where
  "best_overlap t [] best = best"
| "best_overlap t ((j, p) # ps) best =
     (if rect_iou t (geometry p) > snd best
      then best_overlap t ps (Some j, rect_iou t (geometry p))
      else best_overlap t ps best)"

fun match_truths :: "(nat \<times> 'l geobox) list \<Rightarrow> (nat \<times> 'l geobox) list \<Rightarrow> iou_row list" where
  "match_truths [] free = []"
| "match_truths ((i, t) # ts) free =
     (let best = best_overlap (geometry t) free (None, 0)
      in \<lparr>truth_id = i, prediction_id = fst best, IoU = snd best\<rparr> #
         match_truths ts (filter (\<lambda>q. Some (fst q) \<noteq> fst best) free))"

definition overlap_matcher :: "'l geobox list \<Rightarrow> 'l geobox list \<Rightarrow> iou_row list" where
  "overlap_matcher ground predictions =
     match_truths (enumerate 0 ground) (enumerate 0 predictions)"

definition example_env :: "string env" where
  "example_env =
     \<lparr>compute_IoU = overlap_matcher, check_file = (\<lambda>df. True), image_open = (\<lambda>path. True)\<rparr>"

definition tree_box :: "string \<Rightarrow> real \<Rightarrow> real \<Rightarrow> real \<Rightarrow> real \<Rightarrow> string \<Rightarrow> string box" where
  "tree_box path x0 y0 x1 y1 l =
     \<lparr>image_path = path, xmin = x0, ymin = y0, xmax = x1, ymax = y1, label = l\<rparr>"

text \<open>
  The worked example: image \<open>a.tif\<close> has two truth boxes and two predictions, which
  overlap them with IoU 0.9 and 0.6; the second prediction has the wrong label. Image
  \<open>b.tif\<close> has one truth box and no prediction.
\<close>

definition example_ground :: "string box list" where
  "example_ground =
     [tree_box ''a.tif'' 0 0 10 10 ''Tree'', tree_box ''a.tif'' 20 20 30 30 ''Bush'',
      tree_box ''b.tif'' 0 0 10 10 ''Tree'']"

definition example_predictions :: "string box list" where
  "example_predictions =
     [tree_box ''a.tif'' 0 0 10 9 ''Tree'', tree_box ''a.tif'' 20 20 30 26 ''Tree'']"

text \<open>The table \<open>results\<close> of the example, for every threshold below 0.6.\<close>

definition example_rows :: "string match_row list" where
  "example_rows =
     [\<lparr>truth_id = 0, prediction_id = Some 0, IoU = 9 / 10,
       predicted_label = Some ''Tree'', true_label = ''Tree'',
       score = None, row_image_path = Some ''a.tif'', match = Some True\<rparr>,
      \<lparr>truth_id = 1, prediction_id = Some 1, IoU = 3 / 5,
       predicted_label = Some ''Tree'', true_label = ''Bush'',
       score = None, row_image_path = Some ''a.tif'', match = Some True\<rparr>,
      \<lparr>truth_id = 2, prediction_id = None, IoU = 0,
       predicted_label = None, true_label = ''Tree'',
       score = None, row_image_path = None, match = None\<rparr>]"

text \<open>What \<open>evaluate\<close> returns on the example with \<open>average=False\<close> and with
  \<open>average=True\<close>.\<close>

definition example_result :: "string evaluation" where
  "example_result =
     \<lparr>results = example_rows, box_precision = Finite 0, box_recall = Finite 0,
      class_recall =
        Some [\<lparr>class_label = ''Bush'', recall = 0, precision = 0, class_size = 1\<rparr>,
              \<lparr>class_label = ''Tree'', recall = 1 / 2, precision = 1 / 2, class_size = 1\<rparr>],
      overall_precision = 1 / 2, overall_recall = 1 / 3\<rparr>"

definition example_result_macro :: "string evaluation" where
  "example_result_macro =
     example_result\<lparr>box_precision := Finite 1, box_recall := Finite (1 / 2)\<rparr>"

text \<open>Two predictions of two images, passed to \<open>evaluate_image\<close> in one table.\<close>

definition two_plots :: "string box list" where
  "two_plots = [tree_box ''a.tif'' 0 0 10 9 ''Tree'', tree_box ''b.tif'' 0 0 10 9 ''Tree'']"

section \<open>Properties of the helpers\<close>

lemma unique_set: "set (unique xs) = set xs"
  by (induction xs) auto

lemma distinct_unique: "distinct (unique xs)"
  by (induction xs) (auto simp: unique_set)

lemma length_unique: "length (unique xs) = card (set xs)"
  using distinct_card [OF distinct_unique, of xs] by (simp add: unique_set)

lemma hd_unique: "hd (unique xs) = hd xs"
  by (cases xs) simp_all

lemma sort_unique: "sort (unique xs) = sorted_list_of_set (set xs)"
  by (rule sorted_distinct_set_unique) (simp_all add: distinct_unique unique_set)

subsection \<open>Grouping keeps every row once\<close>

lemma sum_list_indicator:
  "distinct ks \<Longrightarrow> sum_list (map (\<lambda>k. if a = k then 1 else 0) ks) = (if a \<in> set ks then 1 else (0::nat))"
  by (induction ks) auto

lemma sum_list_group_lengths:
  "distinct ks \<Longrightarrow> key ` set df \<subseteq> set ks \<Longrightarrow>
   sum_list (map (\<lambda>k. length (filter (\<lambda>r. key r = k) df)) ks) = length df"
proof (induction df)
  case Nil
  then show ?case by simp
next
  case (Cons x xs)
  have "(\<lambda>k. length (filter (\<lambda>r. key r = k) (x # xs))) =
        (\<lambda>k. (if key x = k then 1 else 0) + length (filter (\<lambda>r. key r = k) xs))"
    by auto
  with Cons show ?case
    by (simp add: sum_list_addf sum_list_indicator)
qed

lemma groupby_lengths:
  "sum_list (map (\<lambda>g. length (snd g)) (groupby key df)) = length df"
proof -
  have "sum_list (map (\<lambda>k. length (filter (\<lambda>r. key r = k) df)) (sort (unique (map key df)))) = length df"
    by (rule sum_list_group_lengths) (simp_all add: distinct_unique unique_set)
  then show ?thesis
    by (simp add: groupby_def comp_def)
qed

lemma ground_groups_lengths:
  "sum_list (map (\<lambda>g. length (snd g)) (ground_groups G)) = length G"
  by (simp add: ground_groups_def groupby_lengths)

lemma groupby_nonempty: "g \<in> set (groupby key df) \<Longrightarrow> snd g \<noteq> []"
  by (auto simp: groupby_def unique_set filter_empty_conv)

subsection \<open>Column operations and sums\<close>

lemma apply_rows_length: "apply_rows f xs = Inr ys \<Longrightarrow> length ys = length xs"
  by (induction xs arbitrary: ys) (auto split: sum.splits)

lemma apply_rows_map:
  "(\<And>x. x \<in> set xs \<Longrightarrow> f x = Inr (h x)) \<Longrightarrow> apply_rows f xs = Inr (map h xs)"
  by (induction xs) simp_all

lemma py_sum_eq:
  "py_sum acc xs =
     (if None \<in> set xs then Inl TypeError
      else Inr (acc + int (length (filter (\<lambda>x. x = Some True) xs))))"
proof (induction xs arbitrary: acc)
  case Nil
  show ?case by simp
next
  case (Cons x xs)
  show ?case
  proof (cases x)
    case None
    then show ?thesis by simp
  next
    case (Some b)
    then show ?thesis using Cons.IH [of "acc + (if b then 1 else 0)"] by auto
  qed
qed

lemma py_sum_add_match:
  "py_sum 0 (map (match \<circ> add_match path t) result) =
     Inr (int (length (matched (map (add_match path t) result))))"
proof -
  have "None \<notin> set (map (match \<circ> add_match path t) result)"
    by (auto simp: add_match_def)
  moreover have "length (filter (\<lambda>x. x = Some True) (map (match \<circ> add_match path t) result)) =
      length (matched (map (add_match path t) result))"
    by (simp add: matched_def filter_map comp_def)
  ultimately show ?thesis
    by (simp only: py_sum_eq if_False) simp
qed

lemma sum_bools_count: "sum_bools (map Q xs) = int (length (filter Q xs))"
  by (induction xs) (simp_all add: sum_bools_def)

lemma sum_list_indicator_filter:
  "sum_list (map (\<lambda>r. if Q r then 1 else (0::int)) (filter R xs)) =
   int (length (filter (\<lambda>r. R r \<and> Q r) xs))"
  by (induction xs) auto

section \<open>The loop of \<open>evaluate\<close>\<close>

text \<open>\<open>evaluate_image\<close> keeps the rows of the matcher, one for one.\<close>

lemma evaluate_image_length:
  "evaluate_image env p g root_dir savedir = Inr result \<Longrightarrow>
   length result = length (compute_IoU env (map add_geometry g) (map add_geometry p))"
  by (auto simp: evaluate_image_def Let_def split: if_splits list.splits sum.splits
      dest!: apply_rows_length)

text \<open>An iteration that succeeds appends the per-image table of its image, the
  per-image recall and, for an image with predictions, the per-image precision. The
  table of an image with predictions has a row, since the recall divides by its length.\<close>

lemma evaluate_group_Inr:
  assumes "evaluate_group env P root_dir t savedir g (fs, recs, precs) = Inr st'"
  shows "\<exists>f. image_table env P root_dir t savedir g = Inr f \<and>
             (filter (\<lambda>p. image_path p = fst g) P \<noteq> [] \<longrightarrow> f \<noteq> []) \<and>
             st' = (fs @ [f], recs @ [image_recall P g f], precs @ image_precision P g f)"
proof (cases "filter (\<lambda>p. image_path p = fst g) P = []")
  case True
  with assms show ?thesis
    by (cases g) (auto simp: evaluate_group_def image_table_def image_recall_def image_precision_def)
next
  case False
  obtain path grp where g: "g = (path, grp)" by (cases g)
  from assms False g obtain result where
    r: "evaluate_image env (filter (\<lambda>p. image_path p = path) P) (map snd grp) root_dir savedir = Inr result"
    by (auto simp: evaluate_group_def Let_def split: sum.splits)
  let ?f = "map (add_match path t) result"
  from assms False g r have
    "(case py_div (int (length (matched ?f))) (int (length ?f)) of
        Inl e \<Rightarrow> Inl e
      | Inr recall_value \<Rightarrow>
          (case py_div (int (length (matched ?f))) (int (length (filter (\<lambda>p. image_path p = path) P))) of
             Inl e \<Rightarrow> Inl e
           | Inr precision_value \<Rightarrow>
               Inr (fs @ [?f], recs @ [recall_value], precs @ [precision_value]))) = Inr st'"
    by (simp add: evaluate_group_def Let_def py_sum_add_match del: py_sum.simps)
  then have "?f \<noteq> [] \<and>
     st' = (fs @ [?f], recs @ [real (length (matched ?f)) / real (length ?f)],
            precs @ [real (length (matched ?f)) / real (length (filter (\<lambda>p. image_path p = path) P))])"
    using False g by (auto simp: py_div_def split: if_splits)
  with False g r show ?thesis
    by (simp add: image_table_def image_recall_def image_precision_def)
qed

lemma evaluate_loop_Inr:
  "evaluate_loop env P root_dir t savedir gs (fs, recs, precs) = Inr (fs', recs', precs') \<Longrightarrow>
   \<exists>new. list_all2 (\<lambda>g f. image_table env P root_dir t savedir g = Inr f \<and>
                          (filter (\<lambda>p. image_path p = fst g) P \<noteq> [] \<longrightarrow> f \<noteq> [])) gs new \<and>
         fs' = fs @ new \<and>
         recs' = recs @ map2 (image_recall P) gs new \<and>
         precs' = precs @ concat (map2 (image_precision P) gs new)"
proof (induction gs arbitrary: fs recs precs)
  case Nil
  then show ?case by simp
next
  case (Cons g gs)
  from Cons.prems obtain st1 where
    s1: "evaluate_group env P root_dir t savedir g (fs, recs, precs) = Inr st1"
    and l1: "evaluate_loop env P root_dir t savedir gs st1 = Inr (fs', recs', precs')"
    by (auto split: sum.splits)
  from evaluate_group_Inr [OF s1] obtain f where
    f: "image_table env P root_dir t savedir g = Inr f"
       "filter (\<lambda>p. image_path p = fst g) P \<noteq> [] \<longrightarrow> f \<noteq> []"
    and st1: "st1 = (fs @ [f], recs @ [image_recall P g f], precs @ image_precision P g f)"
    by blast
  from Cons.IH [OF l1 [unfolded st1]] obtain new where
    n: "list_all2 (\<lambda>g f. image_table env P root_dir t savedir g = Inr f \<and>
                          (filter (\<lambda>p. image_path p = fst g) P \<noteq> [] \<longrightarrow> f \<noteq> [])) gs new"
       "fs' = (fs @ [f]) @ new"
       "recs' = (recs @ [image_recall P g f]) @ map2 (image_recall P) gs new"
       "precs' = (precs @ image_precision P g f) @ concat (map2 (image_precision P) gs new)"
    by blast
  show ?case
    by (rule exI [of _ "f # new"]) (use f n in simp)
qed

text \<open>The parts of a result of \<open>evaluate\<close>.\<close>

lemma evaluate_Inr:
  assumes "evaluate env P G root_dir t savedir avg = Inr res"
  shows "\<exists>frames recs precs.
     evaluate_loop env P root_dir t savedir (ground_groups G) ([], [], []) = Inr (frames, recs, precs) \<and>
     frames \<noteq> [] \<and>
     results res = concat frames \<and>
     box_precision res = (if avg then np_mean precs else Finite (match_ratio (concat frames) (int (length P)))) \<and>
     box_recall res = (if avg then np_mean recs
                       else Finite (match_ratio (concat frames) (int (length (concat frames))))) \<and>
     compute_class_recall (concat frames) P = Inr (class_recall res)"
  using assms
  by (auto simp: evaluate_def Let_def split: if_splits sum.splits prod.splits)

lemma evaluate_frames:
  assumes "evaluate env P G root_dir t savedir avg = Inr res"
  shows "\<exists>frames.
     list_all2 (\<lambda>g f. image_table env P root_dir t savedir g = Inr f \<and>
                       (filter (\<lambda>p. image_path p = fst g) P \<noteq> [] \<longrightarrow> f \<noteq> []))
       (ground_groups G) frames \<and>
     frames \<noteq> [] \<and>
     results res = concat frames \<and>
     box_precision res =
       (if avg then np_mean (concat (map2 (image_precision P) (ground_groups G) frames))
        else Finite (match_ratio (results res) (int (length P)))) \<and>
     box_recall res =
       (if avg then np_mean (map2 (image_recall P) (ground_groups G) frames)
        else Finite (match_ratio (results res) (int (length (results res)))))"
proof -
  from evaluate_Inr [OF assms] obtain frames recs precs where
    l: "evaluate_loop env P root_dir t savedir (ground_groups G) ([], [], []) = Inr (frames, recs, precs)"
    and r: "frames \<noteq> []" "results res = concat frames"
      "box_precision res = (if avg then np_mean precs else Finite (match_ratio (concat frames) (int (length P))))"
      "box_recall res = (if avg then np_mean recs
                       else Finite (match_ratio (concat frames) (int (length (concat frames)))))"
    by blast
  from evaluate_loop_Inr [OF l] r show ?thesis
    by auto
qed

lemma evaluate_overall:
  assumes "evaluate env P G root_dir t savedir avg = Inr res"
  shows "overall_precision res =
           except_default 0 (py_div
             (sum_list (map (\<lambda>r. if predicted_label r = Some (true_label r) then 1 else (0::int))
                (filter (\<lambda>r. IoU r > 4 / 10) (results res))))
             (sum_list (map (\<lambda>r. if predicted_label r = Some (true_label r) then 1 else (0::int))
                (filter (\<lambda>r. IoU r > 4 / 10) (results res))) +
              (int (length P) -
               sum_list (map (\<lambda>r. if predicted_label r = Some (true_label r) then 1 else (0::int))
                (filter (\<lambda>r. IoU r > 4 / 10) (results res))))))"
    and "overall_recall res =
           except_default 0 (py_div
             (sum_list (map (\<lambda>r. if predicted_label r = Some (true_label r) then 1 else (0::int))
                (filter (\<lambda>r. IoU r > 4 / 10) (results res))))
             (sum_list (map (\<lambda>r. if predicted_label r = Some (true_label r) then 1 else (0::int))
                (filter (\<lambda>r. IoU r > 4 / 10) (results res))) +
              (int (length (results res)) -
               sum_list (map (\<lambda>r. if predicted_label r = Some (true_label r) then 1 else (0::int))
                (filter (\<lambda>r. IoU r > 4 / 10) (results res))))))"
  using assms
  by (auto simp: evaluate_def Let_def split: if_splits sum.splits prod.splits)

lemma evaluate_overall_eq:
  assumes "evaluate env P G root_dir t savedir avg = Inr res"
  shows "overall_precision res =
           (if int (length P) = 0 then 0
            else real (length (filter (\<lambda>r. 4 / 10 < IoU r \<and> predicted_label r = Some (true_label r))
                                (results res))) / real (length P))"
    and "overall_recall res =
           (if int (length (results res)) = 0 then 0
            else real (length (filter (\<lambda>r. 4 / 10 < IoU r \<and> predicted_label r = Some (true_label r))
                                (results res))) / real (length (results res)))"
  by (simp_all add: evaluate_overall [OF assms] sum_list_indicator_filter py_div_def
      except_default_def)

text \<open>The rows of a per-image table, their number and their columns.\<close>

lemma image_table_rows:
  assumes "image_table env P root_dir t savedir g = Inr f" and "r \<in> set f"
  shows "match r = Some (t < IoU r) \<or> (match r = None \<and> IoU r = 0)"
  using assms
  by (auto simp: image_table_def empty_result_row_def add_match_def split: if_splits sum.splits)

lemma frames_rows:
  assumes "list_all2 (\<lambda>g f. image_table env P root_dir t savedir g = Inr f \<and> Q g f) gs frames"
    and "r \<in> set (concat frames)"
  shows "match r = Some (t < IoU r) \<or> (match r = None \<and> IoU r = 0)"
proof -
  from assms(2) obtain f where f: "f \<in> set frames" "r \<in> set f" by auto
  then obtain i where i: "i < length frames" "frames ! i = f"
    by (auto simp: in_set_conv_nth)
  with assms(1) have "image_table env P root_dir t savedir (gs ! i) = Inr f"
    by (auto simp: list_all2_conv_all_nth)
  with f show ?thesis by (rule_tac image_table_rows)
qed

lemma image_table_length:
  assumes "\<forall>g p. length (compute_IoU env g p) = length g"
    and "image_table env P root_dir t savedir g = Inr f"
  shows "length f = length (snd g)"
  using assms
  by (auto simp: image_table_def split: if_splits sum.splits dest!: evaluate_image_length)

lemma frames_length:
  assumes "\<forall>g p. length (compute_IoU env g p) = length g"
  shows "list_all2 (\<lambda>g f. image_table env P root_dir t savedir g = Inr f \<and> Q g f) gs frames \<Longrightarrow>
         length (concat frames) = sum_list (map (\<lambda>g. length (snd g)) gs)"
proof (induction gs frames rule: list_all2_induct)
  case Nil
  then show ?case by simp
next
  case (Cons g gs f frames)
  then show ?case
    using image_table_length [OF assms, of P root_dir t savedir g f] by simp
qed

lemma image_table_columns:
  assumes "image_table env P root_dir t savedir g = Inr f"
    and "image_table env P root_dir t' savedir g = Inr f'"
  shows "map (\<lambda>r. (IoU r, predicted_label r, true_label r)) f =
         map (\<lambda>r. (IoU r, predicted_label r, true_label r)) f'"
  using assms
  by (auto simp: image_table_def add_match_def split: if_splits sum.splits)

lemma frames_columns:
  assumes "list_all2 (\<lambda>g f. image_table env P root_dir t savedir g = Inr f \<and> Q g f) gs frames"
    and "list_all2 (\<lambda>g f. image_table env P root_dir t' savedir g = Inr f \<and> Q' g f) gs frames'"
  shows "map (\<lambda>r. (IoU r, predicted_label r, true_label r)) (concat frames) =
         map (\<lambda>r. (IoU r, predicted_label r, true_label r)) (concat frames')"
  using assms
proof (induction gs frames arbitrary: frames' rule: list_all2_induct)
  case Nil
  then show ?case by simp
next
  case (Cons g gs f frames)
  from Cons.prems obtain f' fs' where
    f': "frames' = f' # fs'" "image_table env P root_dir t' savedir g = Inr f'"
      "list_all2 (\<lambda>g f. image_table env P root_dir t' savedir g = Inr f \<and> Q' g f) gs fs'"
    by (auto simp: list_all2_Cons1)
  from Cons.hyps(1) have "image_table env P root_dir t savedir g = Inr f" by simp
  from image_table_columns [OF this f'(2)] Cons.IH [OF f'(3)] f'(1)
  show ?case by simp
qed

lemma true_positives_columns:
  "length (filter (\<lambda>r. 4 / 10 < IoU r \<and> predicted_label r = Some (true_label r)) rows) =
   length (filter (\<lambda>c. 4 / 10 < fst c \<and> fst (snd c) = Some (snd (snd c)))
             (map (\<lambda>r. (IoU r, predicted_label r, true_label r)) rows))"
  by (simp add: filter_map comp_def)

section \<open>The class metrics in closed form\<close>

lemma class_metrics_group:
  assumes "c \<in> true_label ` set (matched rows)"
  shows "class_metrics rows P (c, filter (\<lambda>r. true_label r = c) (matched rows)) =
         Inr (class_row_of rows P c)"
proof -
  from assms have "filter (\<lambda>r. true_label r = c) rows \<noteq> []"
    by (auto simp: matched_def filter_empty_conv)
  moreover have "filter (\<lambda>r. Some (true_label r) = predicted_label r)
                   (filter (\<lambda>r. true_label r = c) (matched rows)) =
                 filter (\<lambda>r. true_label r = c \<and> predicted_label r = Some c) (matched rows)"
    by (auto intro: filter_cong)
  ultimately show ?thesis
    by (simp add: class_metrics_def Let_def sum_bools_count py_div_def class_row_of_def)
qed

lemma compute_class_recall_eq:
  "compute_class_recall rows P =
     Inr (if matched rows = [] then None
          else Some (map (class_row_of rows P) (sorted_list_of_set (true_label ` set (matched rows)))))"
proof (cases "matched rows = []")
  case True
  then show ?thesis by (simp add: compute_class_recall_def matched_def)
next
  case False
  have "apply_rows (class_metrics rows P) (groupby true_label (matched rows)) =
        Inr (map (\<lambda>g. class_row_of rows P (fst g)) (groupby true_label (matched rows)))"
    by (rule apply_rows_map) (auto simp: groupby_def unique_set class_metrics_group)
  moreover have "map (\<lambda>g. class_row_of rows P (fst g)) (groupby true_label (matched rows)) =
      map (class_row_of rows P) (sorted_list_of_set (true_label ` set (matched rows)))"
    by (simp add: groupby_def comp_def sort_unique)
  ultimately show ?thesis using False
    by (simp add: compute_class_recall_def matched_def)
qed

section \<open>The worked example, evaluated\<close>

lemma example_evaluate:
  "evaluate example_env example_predictions example_ground ''root'' (4 / 10) None False =
   Inr example_result"
  by code_simp

lemma example_evaluate_macro:
  "evaluate example_env example_predictions example_ground ''root'' (4 / 10) None True =
   Inr example_result_macro"
  by code_simp

lemma match_truths_length: "length (match_truths ts free) = length ts"
  by (induction ts free rule: match_truths.induct) (simp_all add: Let_def)

lemma overlap_matcher_length: "length (overlap_matcher g p) = length g"
  by (simp add: overlap_matcher_def match_truths_length)

section \<open>The claims\<close>

subsection \<open>\<open>evaluate_image\<close>\<close>

text \<open>
  Claim C10. Given a predictions table with zero rows, \<open>evaluate_image\<close> returns no
  result and does not raise the \<open>ValueError\<close> of its check on the image paths: the
  array of distinct paths is empty, and reading its element 0 raises \<open>IndexError\<close>,
  whatever the other arguments are.
\<close>

theorem evaluate_image_empty_predictions:
  "evaluate_image env [] ground_df root_dir savedir = Inl IndexError"
  by (simp add: evaluate_image_def)

text \<open>
  Claim C4, as amended. Given a predictions table whose rows hold more than one distinct
  \<open>image_path\<close>, \<open>evaluate_image\<close> fails with a \<open>ValueError\<close> whose message is
  "More than one plot passed to image crown: " followed by one path, the first of the
  distinct paths, which is the path of the first row.
\<close>

theorem evaluate_image_many_plots:
  assumes "card (set (map image_path predictions)) > 1"
  shows "evaluate_image env predictions ground_df root_dir savedir =
         Inl (ValueError (''More than one plot passed to image crown: '' @ image_path (hd predictions)))"
proof -
  from assms have ne: "predictions \<noteq> []" by auto
  from assms have "length (unique (map image_path predictions)) > 1"
    by (simp only: length_unique)
  moreover have "hd (unique (map image_path predictions)) = image_path (hd predictions)"
    using ne by (simp add: hd_unique hd_map)
  ultimately show ?thesis
    by (simp add: evaluate_image_def)
qed

theorem evaluate_image_many_plots_witness:
  "1 < card (set (map image_path two_plots)) \<and>
   evaluate_image example_env two_plots [] ''root'' None =
     Inl (ValueError ''More than one plot passed to image crown: a.tif'')"
proof -
  have h: "1 < card (set (map image_path two_plots))"
    by (simp add: two_plots_def tree_box_def)
  show ?thesis
    using h evaluate_image_many_plots [OF h, of example_env "[]" "''root''" None]
    by (simp add: two_plots_def tree_box_def)
qed

text \<open>
  The claim as the specification states it asks for a message that names the set of
  distinct paths. On a table with the paths \<open>a.tif\<close> and \<open>b.tif\<close> the message names
  \<open>a.tif\<close> only.
\<close>

theorem evaluate_image_message_counterexample:
  "evaluate_image example_env two_plots [] ''root'' None =
     Inl (ValueError ''More than one plot passed to image crown: a.tif'') \<and>
   unique (map image_path two_plots) = [''a.tif'', ''b.tif''] \<and>
   \<not> mentions ''More than one plot passed to image crown: a.tif'' ''b.tif''"
  by code_simp

subsection \<open>The loop of \<open>evaluate\<close>\<close>

text \<open>The precision list has one entry per image with predictions and none for
  the others.\<close>

lemma length_image_precisions:
  "length gs = length frames \<Longrightarrow>
   length (concat (map2 (image_precision P) gs frames)) =
   length (filter (\<lambda>g. filter (\<lambda>p. image_path p = fst g) P \<noteq> []) gs)"
  by (induction gs frames rule: list_induct2) (simp_all add: image_precision_def)

text \<open>
  Claim C5. Take a call of \<open>evaluate\<close> that succeeds and a ground-truth group, the
  \<open>i\<close>-th of the loop, whose image has no prediction row. The table \<open>results\<close> is
  the concatenation of the per-image tables the loop collected, one per group, and the
  \<open>i\<close>-th of them is synthesized: it has exactly one row per truth row of the group,
  which carries the index label and the label of that truth row and has
  \<open>prediction_id\<close> null, \<open>IoU = 0\<close>, \<open>match\<close> null and \<open>predicted_label\<close>
  null, and all these rows are rows of \<open>results\<close>. The list \<open>box_recalls\<close> has
  one entry per group and its \<open>i\<close>-th entry is 0. The list \<open>box_precisions\<close> has
  one entry per group whose image has predictions, so none for this image.
\<close>

theorem evaluate_no_predictions:
  assumes "evaluate env predictions ground_df root_dir t savedir average = Inr res"
    and "i < length (ground_groups ground_df)"
    and "filter (\<lambda>p. image_path p = fst (ground_groups ground_df ! i)) predictions = []"
  shows "\<exists>frames recalls precisions.
     evaluate_loop env predictions root_dir t savedir (ground_groups ground_df) ([], [], []) =
       Inr (frames, recalls, precisions) \<and>
     results res = concat frames \<and>
     length frames = length (ground_groups ground_df) \<and>
     frames ! i = map empty_result_row (snd (ground_groups ground_df ! i)) \<and>
     length (frames ! i) = length (snd (ground_groups ground_df ! i)) \<and>
     snd (ground_groups ground_df ! i) \<noteq> [] \<and>
     map truth_id (frames ! i) = map fst (snd (ground_groups ground_df ! i)) \<and>
     map true_label (frames ! i) = map (\<lambda>g. label (snd g)) (snd (ground_groups ground_df ! i)) \<and>
     (\<forall>r \<in> set (frames ! i).
        r \<in> set (results res) \<and>
        prediction_id r = None \<and> IoU r = 0 \<and> match r = None \<and> predicted_label r = None) \<and>
     length recalls = length (ground_groups ground_df) \<and>
     recalls ! i = 0 \<and>
     length precisions =
       length (filter (\<lambda>g. filter (\<lambda>p. image_path p = fst g) predictions \<noteq> [])
                 (ground_groups ground_df))"
proof -
  let ?gs = "ground_groups ground_df"
  from evaluate_Inr [OF assms(1)] obtain frames recs precs where
    l: "evaluate_loop env predictions root_dir t savedir ?gs ([], [], []) = Inr (frames, recs, precs)"
    and rs: "results res = concat frames"
    by blast
  from evaluate_loop_Inr [OF l] have
    fr: "list_all2 (\<lambda>g f. image_table env predictions root_dir t savedir g = Inr f \<and>
                       (filter (\<lambda>p. image_path p = fst g) predictions \<noteq> [] \<longrightarrow> f \<noteq> []))
           ?gs frames"
    and recs: "recs = map2 (image_recall predictions) ?gs frames"
    and precs: "precs = concat (map2 (image_precision predictions) ?gs frames)"
    by simp_all
  from fr have len: "length ?gs = length frames"
    by (rule list_all2_lengthD)
  from fr assms(2) have "image_table env predictions root_dir t savedir (?gs ! i) = Inr (frames ! i)"
    by (simp add: list_all2_conv_all_nth)
  with assms(3) have fi: "frames ! i = map empty_result_row (snd (?gs ! i))"
    by (simp add: image_table_def)
  from assms(2) have "?gs ! i \<in> set (groupby (\<lambda>r. image_path (snd r)) (enumerate 0 ground_df))"
    by (simp add: ground_groups_def)
  then have ne: "snd (?gs ! i) \<noteq> []"
    by (rule groupby_nonempty)
  from assms(2) len have "frames ! i \<in> set frames"
    by simp
  with rs have sub: "set (frames ! i) \<subseteq> set (results res)"
    by auto
  have rows: "\<forall>r \<in> set (frames ! i).
        r \<in> set (results res) \<and>
        prediction_id r = None \<and> IoU r = 0 \<and> match r = None \<and> predicted_label r = None"
  proof
    fix r assume r: "r \<in> set (frames ! i)"
    with sub have "r \<in> set (results res)" by blast
    moreover from r fi have
      "prediction_id r = None \<and> IoU r = 0 \<and> match r = None \<and> predicted_label r = None"
      by (auto simp: empty_result_row_def)
    ultimately show "r \<in> set (results res) \<and>
        prediction_id r = None \<and> IoU r = 0 \<and> match r = None \<and> predicted_label r = None"
      by blast
  qed
  have ri: "recs ! i = 0"
    using assms(2,3) len by (simp add: recs image_recall_def)
  have lr: "length recs = length ?gs"
    using len by (simp add: recs)
  have lp: "length precs =
       length (filter (\<lambda>g. filter (\<lambda>p. image_path p = fst g) predictions \<noteq> []) ?gs)"
    by (simp only: precs length_image_precisions [OF len])
  have ids: "map truth_id (frames ! i) = map fst (snd (?gs ! i))"
    by (simp add: fi empty_result_row_def comp_def)
  have labels: "map true_label (frames ! i) = map (\<lambda>g. label (snd g)) (snd (?gs ! i))"
    by (simp add: fi empty_result_row_def comp_def)
  have li: "length (frames ! i) = length (snd (?gs ! i))"
    by (simp add: fi)
  from len have len': "length frames = length ?gs"
    by simp
  from l rs len' fi li ne ids labels rows lr ri lp show ?thesis
    by blast
qed

theorem evaluate_no_predictions_witness:
  "evaluate example_env example_predictions example_ground ''root'' (4 / 10) None False =
     Inr example_result \<and>
   (1::nat) < length (ground_groups example_ground) \<and>
   filter (\<lambda>p. image_path p = fst (ground_groups example_ground ! 1)) example_predictions = [] \<and>
   (\<exists>frames recalls precisions.
      evaluate_loop example_env example_predictions ''root'' (4 / 10) None
          (ground_groups example_ground) ([], [], []) = Inr (frames, recalls, precisions) \<and>
      results example_result = concat frames \<and>
      frames ! 1 = map empty_result_row (snd (ground_groups example_ground ! 1)) \<and>
      recalls ! 1 = 0 \<and>
      length precisions =
        length (filter (\<lambda>g. filter (\<lambda>p. image_path p = fst g) example_predictions \<noteq> [])
                  (ground_groups example_ground)))"
proof -
  have i: "(1::nat) < length (ground_groups example_ground)"
    by code_simp
  have h: "filter (\<lambda>p. image_path p = fst (ground_groups example_ground ! 1)) example_predictions = []"
    by code_simp
  from evaluate_no_predictions [OF example_evaluate i h] example_evaluate i h
  show ?thesis by blast
qed

text \<open>
  Claim C3, as amended. Every row of the table \<open>results\<close> that \<open>evaluate\<close> returns
  either has \<open>match\<close> equal to the truth value of \<open>IoU > iou_threshold\<close>, or is a
  row synthesized for an image without predictions, with \<open>IoU = 0\<close> and a null
  \<open>match\<close>. Hence, when \<open>iou_threshold\<close> is not negative, \<open>match\<close> is true
  if and only if \<open>IoU > iou_threshold\<close>.
\<close>

theorem evaluate_match_iff:
  assumes "evaluate env predictions ground_df root_dir t savedir average = Inr res"
    and "r \<in> set (results res)"
  shows "(match r = Some (t < IoU r) \<or> (match r = None \<and> IoU r = 0)) \<and>
         (0 \<le> t \<longrightarrow> (match r = Some True \<longleftrightarrow> t < IoU r))"
proof -
  from evaluate_frames [OF assms(1)] obtain frames where
    fr: "list_all2 (\<lambda>g f. image_table env predictions root_dir t savedir g = Inr f \<and>
                       (filter (\<lambda>p. image_path p = fst g) predictions \<noteq> [] \<longrightarrow> f \<noteq> []))
       (ground_groups ground_df) frames"
    and rs: "results res = concat frames"
    by blast
  from frames_rows [OF fr] assms(2) rs
  have "match r = Some (t < IoU r) \<or> (match r = None \<and> IoU r = 0)" by simp
  then show ?thesis by auto
qed

theorem evaluate_match_iff_witness:
  "evaluate example_env example_predictions example_ground ''root'' (4 / 10) None False =
     Inr example_result \<and>
   last example_rows \<in> set (results example_result) \<and>
   (0::real) \<le> 4 / 10 \<and>
   (match (last example_rows) = Some True \<longleftrightarrow> 4 / 10 < IoU (last example_rows))"
proof -
  have r: "last example_rows \<in> set (results example_result)"
    by (simp add: example_result_def example_rows_def)
  have t: "(0::real) \<le> 4 / 10" by simp
  from evaluate_match_iff [OF example_evaluate r] t
  have "match (last example_rows) = Some True \<longleftrightarrow> 4 / 10 < IoU (last example_rows)"
    by blast
  with example_evaluate r t show ?thesis by blast
qed

text \<open>
  The claim as the specification states it speaks of every threshold the caller may
  pass. With the threshold \<open>-1\<close> the row synthesized for \<open>b.tif\<close> has
  \<open>IoU = 0 > -1\<close> and a \<open>match\<close> that is null, not true.
\<close>

theorem evaluate_match_iff_counterexample:
  "evaluate example_env example_predictions example_ground ''root'' (- 1) None False =
     Inr example_result \<and>
   last example_rows \<in> set (results example_result) \<and>
   - 1 < IoU (last example_rows) \<and>
   match (last example_rows) \<noteq> Some True"
  by code_simp

text \<open>
  Claim C9. When the matcher returns one row per truth rectangle and \<open>evaluate\<close>
  succeeds, the number of rows of the table \<open>results\<close> is the sum of the numbers of
  ground-truth rows of the images, which is the number of rows of \<open>ground_df\<close>.
\<close>

theorem evaluate_row_count:
  assumes "\<forall>g p. length (compute_IoU env g p) = length g"
    and "evaluate env predictions ground_df root_dir t savedir average = Inr res"
  shows "length (results res) = sum_list (map (\<lambda>g. length (snd g)) (ground_groups ground_df)) \<and>
         length (results res) = length ground_df"
proof -
  from evaluate_frames [OF assms(2)] obtain frames where
    fr: "list_all2 (\<lambda>g f. image_table env predictions root_dir t savedir g = Inr f \<and>
                       (filter (\<lambda>p. image_path p = fst g) predictions \<noteq> [] \<longrightarrow> f \<noteq> []))
       (ground_groups ground_df) frames"
    and rs: "results res = concat frames"
    by blast
  from frames_length [OF assms(1) fr] rs show ?thesis
    by (simp add: ground_groups_lengths)
qed

theorem evaluate_row_count_witness:
  "(\<forall>g p. length (compute_IoU example_env g p) = length g) \<and>
   evaluate example_env example_predictions example_ground ''root'' (4 / 10) None False =
     Inr example_result \<and>
   length (results example_result) =
     sum_list (map (\<lambda>g. length (snd g)) (ground_groups example_ground)) \<and>
   length (results example_result) = length example_ground"
proof -
  have h: "\<forall>g p. length (compute_IoU example_env g p) = length g"
    by (simp add: example_env_def overlap_matcher_length)
  from evaluate_row_count [OF h example_evaluate] h example_evaluate
  show ?thesis by blast
qed

subsection \<open>The box metrics of \<open>evaluate\<close>\<close>

text \<open>
  What the micro mode computes. The sum over the column \<open>match\<close> raises
  \<open>TypeError\<close> at a null cell, the bare \<open>except\<close> turns that into 0, and the
  null cells are those of the rows synthesized for images without predictions.
\<close>

lemma match_ratio_eq:
  "match_ratio rows n =
     (if None \<in> set (map match rows) \<or> n = 0 then 0
      else real (length (matched rows)) / real_of_int n)"
proof -
  have "length (filter (\<lambda>x. x = Some True) (map match rows)) = length (matched rows)"
    by (simp add: matched_def filter_map comp_def)
  then show ?thesis
    by (simp add: match_ratio_def py_sum_eq py_div_def except_default_def)
qed

lemma image_table_None:
  assumes "image_table env P root_dir t savedir g = Inr f" and "snd g \<noteq> []"
  shows "None \<in> set (map match f) \<longleftrightarrow> filter (\<lambda>p. image_path p = fst g) P = []"
proof (cases "filter (\<lambda>p. image_path p = fst g) P = []")
  case True
  with assms(1) have f: "f = map empty_result_row (snd g)"
    by (simp add: image_table_def)
  from assms(2) obtain x xs where "snd g = x # xs"
    by (cases "snd g") simp_all
  with f True show ?thesis
    by (simp add: empty_result_row_def)
next
  case False
  with assms(1) show ?thesis
    by (auto simp: image_table_def add_match_def split: sum.splits)
qed

lemma frames_None:
  assumes "list_all2 (\<lambda>g f. image_table env P root_dir t savedir g = Inr f \<and> Q g f) gs frames"
    and "list_all (\<lambda>g. snd g \<noteq> []) gs"
  shows "None \<in> set (map match (concat frames)) \<longleftrightarrow>
         list_ex (\<lambda>g. filter (\<lambda>p. image_path p = fst g) P = []) gs"
  using assms
proof (induction gs frames rule: list_all2_induct)
  case Nil
  then show ?case by simp
next
  case (Cons g gs f frames)
  from Cons.hyps(1) Cons.prems have
    "None \<in> set (map match f) \<longleftrightarrow> filter (\<lambda>p. image_path p = fst g) P = []"
    using image_table_None [of env P root_dir t savedir g f] by simp
  moreover from Cons.IH Cons.prems have
    "None \<in> set (map match (concat frames)) \<longleftrightarrow>
     list_ex (\<lambda>g. filter (\<lambda>p. image_path p = fst g) P = []) gs"
    by simp
  ultimately show ?case by auto
qed

lemma evaluate_micro_average:
  assumes "evaluate env predictions ground_df root_dir t savedir False = Inr res"
  shows "box_precision res =
           Finite (if list_ex (\<lambda>g. filter (\<lambda>p. image_path p = fst g) predictions = [])
                        (ground_groups ground_df) \<or> predictions = []
                   then 0
                   else real (length (matched (results res))) / real (length predictions))"
    and "box_recall res =
           Finite (if list_ex (\<lambda>g. filter (\<lambda>p. image_path p = fst g) predictions = [])
                        (ground_groups ground_df) \<or> results res = []
                   then 0
                   else real (length (matched (results res))) / real (length (results res)))"
proof -
  from evaluate_frames [OF assms] obtain frames where
    fr: "list_all2 (\<lambda>g f. image_table env predictions root_dir t savedir g = Inr f \<and>
                       (filter (\<lambda>p. image_path p = fst g) predictions \<noteq> [] \<longrightarrow> f \<noteq> []))
       (ground_groups ground_df) frames"
    and rs: "results res = concat frames"
      "box_precision res = Finite (match_ratio (results res) (int (length predictions)))"
      "box_recall res = Finite (match_ratio (results res) (int (length (results res))))"
    by auto
  have "list_all (\<lambda>g. snd g \<noteq> []) (ground_groups ground_df)"
    by (auto simp: list_all_iff ground_groups_def dest: groupby_nonempty)
  from frames_None [OF fr this] rs(1) have
    n: "None \<in> set (map match (results res)) \<longleftrightarrow>
        list_ex (\<lambda>g. filter (\<lambda>p. image_path p = fst g) predictions = []) (ground_groups ground_df)"
    by simp
  show "box_precision res =
           Finite (if list_ex (\<lambda>g. filter (\<lambda>p. image_path p = fst g) predictions = [])
                        (ground_groups ground_df) \<or> predictions = []
                   then 0
                   else real (length (matched (results res))) / real (length predictions))"
    by (simp only: rs(2) match_ratio_eq n) simp
  show "box_recall res =
           Finite (if list_ex (\<lambda>g. filter (\<lambda>p. image_path p = fst g) predictions = [])
                        (ground_groups ground_df) \<or> results res = []
                   then 0
                   else real (length (matched (results res))) / real (length (results res)))"
    by (simp only: rs(3) match_ratio_eq n) simp
qed

text \<open>
  Claim C1 says that in micro mode \<open>box_precision\<close> is the number of matched rows
  over the number of predictions and \<open>box_recall\<close> is the number of matched rows over
  the number of truth rows, also when one image has matches and another has no
  predictions. On the worked example, which is such a dataset, two rows are matched,
  there are two predictions and three truth rows, and \<open>evaluate\<close> returns 0 for both
  metrics instead of 1 and 2/3.
\<close>

theorem evaluate_micro_example:
  "evaluate example_env example_predictions example_ground ''root'' (4 / 10) None False =
     Inr example_result \<and>
   length (matched (results example_result)) = 2 \<and>
   length example_predictions = 2 \<and>
   length (results example_result) = 3 \<and>
   box_precision example_result = Finite 0 \<and>
   box_recall example_result = Finite 0"
  by code_simp

text \<open>
  Claim C6. In macro mode (\<open>average=True\<close>) a result of \<open>evaluate\<close> has
  \<open>box_recall\<close> equal to the mean of the per-image recalls, one per image of the
  ground truth, with 0 for an image without predictions, and \<open>box_precision\<close> equal
  to the mean of the per-image precisions of the images that have predictions. The
  per-image tables are the parts of \<open>results\<close>; the mean is numpy's, which is
  \<open>nan\<close> for an empty list.
\<close>

theorem evaluate_macro_average:
  assumes "evaluate env predictions ground_df root_dir t savedir True = Inr res"
  shows "\<exists>frames.
     list_all2 (\<lambda>g f. image_table env predictions root_dir t savedir g = Inr f \<and>
                       (filter (\<lambda>p. image_path p = fst g) predictions \<noteq> [] \<longrightarrow> f \<noteq> []))
       (ground_groups ground_df) frames \<and>
     frames \<noteq> [] \<and>
     results res = concat frames \<and>
     box_recall res = np_mean (map2 (image_recall predictions) (ground_groups ground_df) frames) \<and>
     box_precision res =
       np_mean (concat (map2 (image_precision predictions) (ground_groups ground_df) frames))"
proof -
  from evaluate_frames [OF assms] obtain frames where
    "list_all2 (\<lambda>g f. image_table env predictions root_dir t savedir g = Inr f \<and>
                       (filter (\<lambda>p. image_path p = fst g) predictions \<noteq> [] \<longrightarrow> f \<noteq> []))
       (ground_groups ground_df) frames"
    "frames \<noteq> []"
    "results res = concat frames"
    "box_precision res =
       np_mean (concat (map2 (image_precision predictions) (ground_groups ground_df) frames))"
    "box_recall res = np_mean (map2 (image_recall predictions) (ground_groups ground_df) frames)"
    by auto
  then show ?thesis by blast
qed

theorem evaluate_macro_average_witness:
  "evaluate example_env example_predictions example_ground ''root'' (4 / 10) None True =
     Inr example_result_macro \<and>
   (\<exists>frames.
      results example_result_macro = concat frames \<and>
      box_recall example_result_macro =
        np_mean (map2 (image_recall example_predictions) (ground_groups example_ground) frames) \<and>
      box_precision example_result_macro =
        np_mean (concat (map2 (image_precision example_predictions)
                           (ground_groups example_ground) frames)))"
  using example_evaluate_macro evaluate_macro_average [OF example_evaluate_macro]
  by blast

subsection \<open>The label-aware metrics of \<open>evaluate\<close>\<close>

text \<open>
  Claim C2. A result of \<open>evaluate\<close> has \<open>overall_precision = TP / (TP + FP)\<close> and
  \<open>overall_recall = TP / (TP + FN)\<close>, each 0 when its denominator is 0, where
  \<open>TP\<close> counts the rows of \<open>results\<close> with \<open>IoU > 0.4\<close> whose predicted label
  is the true label, \<open>FP\<close> is the number of predictions minus \<open>TP\<close> and \<open>FN\<close>
  is the number of rows of \<open>results\<close> (one per truth row) minus \<open>TP\<close>. The
  threshold 0.4 is fixed: a call with any other \<open>iou_threshold\<close> that succeeds
  returns the same two values.
\<close>

theorem evaluate_overall_metrics:
  assumes "evaluate env predictions ground_df root_dir t savedir average = Inr res"
  shows "(let TP = int (length (filter (\<lambda>r. 4 / 10 < IoU r \<and> predicted_label r = Some (true_label r))
                                  (results res)));
              FP = int (length predictions) - TP;
              FN = int (length (results res)) - TP
          in overall_precision res =
               (if TP + FP = 0 then 0 else real_of_int TP / real_of_int (TP + FP)) \<and>
             overall_recall res =
               (if TP + FN = 0 then 0 else real_of_int TP / real_of_int (TP + FN))) \<and>
         (\<forall>t' res'. evaluate env predictions ground_df root_dir t' savedir average = Inr res' \<longrightarrow>
            overall_precision res' = overall_precision res \<and>
            overall_recall res' = overall_recall res)"
proof (intro conjI allI impI)
  show "let TP = int (length (filter (\<lambda>r. 4 / 10 < IoU r \<and> predicted_label r = Some (true_label r))
                                  (results res)));
              FP = int (length predictions) - TP;
              FN = int (length (results res)) - TP
          in overall_precision res =
               (if TP + FP = 0 then 0 else real_of_int TP / real_of_int (TP + FP)) \<and>
             overall_recall res =
               (if TP + FN = 0 then 0 else real_of_int TP / real_of_int (TP + FN))"
    by (simp add: Let_def evaluate_overall_eq [OF assms])
next
  fix t' res'
  assume other: "evaluate env predictions ground_df root_dir t' savedir average = Inr res'"
  from evaluate_frames [OF assms] obtain frames where
    fr: "list_all2 (\<lambda>g f. image_table env predictions root_dir t savedir g = Inr f \<and>
                       (filter (\<lambda>p. image_path p = fst g) predictions \<noteq> [] \<longrightarrow> f \<noteq> []))
       (ground_groups ground_df) frames"
    and rs: "results res = concat frames"
    by blast
  from evaluate_frames [OF other] obtain frames' where
    fr': "list_all2 (\<lambda>g f. image_table env predictions root_dir t' savedir g = Inr f \<and>
                       (filter (\<lambda>p. image_path p = fst g) predictions \<noteq> [] \<longrightarrow> f \<noteq> []))
       (ground_groups ground_df) frames'"
    and rs': "results res' = concat frames'"
    by blast
  from frames_columns [OF fr fr'] rs rs' have
    cols: "map (\<lambda>r. (IoU r, predicted_label r, true_label r)) (results res) =
           map (\<lambda>r. (IoU r, predicted_label r, true_label r)) (results res')"
    by simp
  then have len: "length (results res) = length (results res')"
    by (rule map_eq_imp_length_eq)
  have tp: "length (filter (\<lambda>r. 4 / 10 < IoU r \<and> predicted_label r = Some (true_label r)) (results res)) =
            length (filter (\<lambda>r. 4 / 10 < IoU r \<and> predicted_label r = Some (true_label r)) (results res'))"
    by (simp only: true_positives_columns cols)
  show "overall_precision res' = overall_precision res"
    by (simp only: evaluate_overall_eq(1) [OF assms] evaluate_overall_eq(1) [OF other] tp)
  show "overall_recall res' = overall_recall res"
    by (simp only: evaluate_overall_eq(2) [OF assms] evaluate_overall_eq(2) [OF other] tp len)
qed

theorem evaluate_overall_metrics_witness:
  "evaluate example_env example_predictions example_ground ''root'' (4 / 10) None False =
     Inr example_result \<and>
   (let TP = int (length (filter (\<lambda>r. 4 / 10 < IoU r \<and> predicted_label r = Some (true_label r))
                            (results example_result)));
        FP = int (length example_predictions) - TP;
        FN = int (length (results example_result)) - TP
    in overall_precision example_result =
         (if TP + FP = 0 then 0 else real_of_int TP / real_of_int (TP + FP)) \<and>
       overall_recall example_result =
         (if TP + FN = 0 then 0 else real_of_int TP / real_of_int (TP + FN)))"
  using example_evaluate evaluate_overall_metrics [OF example_evaluate]
  by blast

subsection \<open>\<open>compute_class_recall\<close>\<close>

text \<open>
  Claim C7. Given a table with at least one row whose \<open>match\<close> is true,
  \<open>compute_class_recall\<close> returns a table with one row per distinct true label
  \<open>c\<close> of the matched subset. In that row, \<open>recall\<close> is the number of matched rows
  with \<open>predicted_label = true_label = c\<close> over the number of all rows with
  \<open>true_label = c\<close>, matched or not (which is not 0); \<open>precision\<close> is the same
  numerator over the number of predictions with label \<open>c\<close>, and 0 when there is no
  such prediction; and \<open>size\<close> is the number of matched rows with \<open>true_label = c\<close>.
\<close>

theorem compute_class_recall_metrics:
  assumes "\<exists>r \<in> set rows. match r = Some True"
  shows "\<exists>table.
     compute_class_recall rows predictions = Inr (Some table) \<and>
     map class_label table = sorted_list_of_set (true_label ` set (matched rows)) \<and>
     (\<forall>row \<in> set table.
        filter (\<lambda>r. true_label r = class_label row) rows \<noteq> [] \<and>
        recall row =
          real (length (filter (\<lambda>r. true_label r = class_label row \<and>
                                     predicted_label r = Some (class_label row)) (matched rows))) /
          real (length (filter (\<lambda>r. true_label r = class_label row) rows)) \<and>
        precision row =
          (if filter (\<lambda>p. label p = class_label row) predictions = [] then 0
           else real (length (filter (\<lambda>r. true_label r = class_label row \<and>
                                          predicted_label r = Some (class_label row)) (matched rows))) /
                real (length (filter (\<lambda>p. label p = class_label row) predictions))) \<and>
        class_size row = int (length (filter (\<lambda>r. true_label r = class_label row) (matched rows))))"
proof -
  from assms have ne: "matched rows \<noteq> []"
    by (auto simp: matched_def filter_empty_conv)
  let ?table = "map (class_row_of rows predictions) (sorted_list_of_set (true_label ` set (matched rows)))"
  have 1: "compute_class_recall rows predictions = Inr (Some ?table)"
    using ne by (simp add: compute_class_recall_eq)
  have 2: "map class_label ?table = sorted_list_of_set (true_label ` set (matched rows))"
    by (simp add: comp_def class_row_of_def)
  have 3: "filter (\<lambda>r. true_label r = class_label row) rows \<noteq> []" if "row \<in> set ?table" for row
    using that by (auto simp: class_row_of_def matched_def filter_empty_conv)
  show ?thesis
    apply (rule exI [of _ ?table])
    apply (intro conjI ballI 1 2 3)
       apply assumption
      apply (auto simp: class_row_of_def)
    done
qed

theorem compute_class_recall_metrics_witness:
  "(\<exists>r \<in> set example_rows. match r = Some True) \<and>
   (\<exists>table. compute_class_recall example_rows example_predictions = Inr (Some table) \<and>
      map class_label table = sorted_list_of_set (true_label ` set (matched example_rows)))"
proof -
  have h: "\<exists>r \<in> set example_rows. match r = Some True"
    by (simp add: example_rows_def)
  from compute_class_recall_metrics [OF h, of example_predictions] h
  show ?thesis by blast
qed

text \<open>
  Claim C8. \<open>compute_class_recall\<close> returns null if and only if the table has no row
  whose \<open>match\<close> is true, and it raises no exception.
\<close>

theorem compute_class_recall_None_iff:
  "(compute_class_recall rows predictions = Inr None \<longleftrightarrow> \<not> (\<exists>r \<in> set rows. match r = Some True)) \<and>
   (\<forall>e. compute_class_recall rows predictions \<noteq> Inl e)"
  by (auto simp: compute_class_recall_eq matched_def filter_empty_conv)

theorem compute_class_recall_None_iff_witness:
  "compute_class_recall [last example_rows] example_predictions = Inr None \<and>
   compute_class_recall example_rows example_predictions \<noteq> Inr None"
  using compute_class_recall_None_iff [of "[last example_rows]" example_predictions]
    compute_class_recall_None_iff [of example_rows example_predictions]
  by (simp add: example_rows_def)

end
